theory Spec2Isabelle
  imports Complex_Main "HOL-Library.Word"
begin

unbundle bit_operations_syntax

section \<open>Node.js Buffer primitives\<close>

text \<open>
  Both parsers take a Node.js \<open>Buffer\<close>: a fixed sequence of unsigned bytes addressed
  from 0. The numeric read methods throw a \<open>RangeError\<close> when any byte of the value
  lies outside the buffer (with the code \<open>ERR_OUT_OF_RANGE\<close>, or
  \<open>ERR_BUFFER_OUT_OF_BOUNDS\<close> when the whole buffer is shorter than the value; the
  parsers' callers see a thrown \<open>RangeError\<close> either way, and the model has one
  error); a throw is the \<open>Inl\<close> branch of the result.

  JavaScript numbers that hold integers are \<open>int\<close>. A number that is not an integer
  is the rational value of the double the code computes (\<open>rat\<close>). Dividing an integer
  of at most 32 bits by 16, 128 or 256 and multiplying a signed byte by 15.625 are exact
  in double precision, so these are written as exact rational operations. The two
  operations that are not exact, the Telemetry acceleration \<open>raw * 2 / 127.0\<close> and the
  ambient light level with its factor \<open>0.72\<close>, go through \<open>roundDouble\<close> below, which
  rounds a rational to the nearest double, ties to even.
  Every operand of a bitwise operator in the two parsers is a value read from one or two
  bytes, so it lies in the range where JavaScript's conversion to 32-bit integers is
  the identity (lemmas \<open>readUInt8_range\<close> and \<open>readUInt16LE_range\<close> below).
\<close>

type_synonym byte = "8 word"
type_synonym buffer = "byte list"

subsection \<open>Rounding to a double\<close>

text \<open>
  IEEE 754 binary64, round to nearest, ties to even, for values in the normal range
  (the parsers' values lie between \<open>2 / 127\<close> and \<open>2 ^ 19\<close> in magnitude, or are 0):
  a double has 53 significant bits, so a value \<open>a\<close> with \<open>2 ^ e \<le> a < 2 ^ (e + 1)\<close>
  is rounded to a multiple of \<open>2 ^ (e - 52)\<close>. \<open>bitLength n\<close> is the number of binary
  digits of a positive \<open>n\<close>, and \<open>floorLog2 a\<close> is that exponent \<open>e\<close> for a positive
  \<open>a\<close> (below 1, \<open>e\<close> is minus the least \<open>k\<close> with \<open>1 / a \<le> 2 ^ k\<close>).
\<close>

function bitLength :: "int \<Rightarrow> nat" where
  "bitLength n = (if n \<le> 0 then 0 else Suc (bitLength (n div 2)))"
  by pat_completeness auto
termination
  by (relation "measure nat") auto

declare bitLength.simps [simp del]

definition floorLog2 :: "rat \<Rightarrow> int" where
  "floorLog2 a =
     (if 1 \<le> a then int (bitLength \<lfloor>a\<rfloor>) - 1
      else - int (bitLength (\<lceil>1 / a\<rceil> - 1)))"

definition pow2 :: "int \<Rightarrow> rat" where
  "pow2 e = (if 0 \<le> e then 2 ^ nat e else 1 / 2 ^ nat (- e))"

definition roundHalfEven :: "rat \<Rightarrow> int" where
  "roundHalfEven q =
     (let f = \<lfloor>q\<rfloor>; r = q - of_int f
      in if r < 1 / 2 then f else if 1 / 2 < r then f + 1
         else if even f then f else f + 1)"

definition roundDouble :: "rat \<Rightarrow> rat" where
  "roundDouble v =
     (if v = 0 then 0
      else let a = \<bar>v\<bar>; ulp = pow2 (floorLog2 a - 52)
           in sgn v * of_int (roundHalfEven (a / ulp)) * ulp)"

subsection \<open>Reading from a buffer\<close>

datatype error = ERR_OUT_OF_RANGE

definition readUInt8 :: "buffer \<Rightarrow> nat \<Rightarrow> error + int" where
  "readUInt8 data offset =
     (if offset < length data then Inr (uint (data ! offset)) else Inl ERR_OUT_OF_RANGE)"

definition readInt8 :: "buffer \<Rightarrow> nat \<Rightarrow> error + int" where
  "readInt8 data offset =
     (if offset < length data then Inr (sint (data ! offset)) else Inl ERR_OUT_OF_RANGE)"

definition readUInt16LE :: "buffer \<Rightarrow> nat \<Rightarrow> error + int" where
  "readUInt16LE data offset =
     (if offset + 1 < length data
      then Inr (uint (data ! offset) + uint (data ! (offset + 1)) * 2 ^ 8)
      else Inl ERR_OUT_OF_RANGE)"

definition readUInt32LE :: "buffer \<Rightarrow> nat \<Rightarrow> error + int" where
  "readUInt32LE data offset =
     (if offset + 3 < length data
      then Inr (uint (data ! offset)
              + uint (data ! (offset + 1)) * 2 ^ 8
              + uint (data ! (offset + 2)) * 2 ^ 16
              + uint (data ! (offset + 3)) * 2 ^ 24)
      else Inl ERR_OUT_OF_RANGE)"

text \<open>
  \<open>data.toString('hex', start, end)\<close> never throws: \<open>end\<close> is clamped to the length
  of the buffer and an empty range gives the empty string.
\<close>

definition hexDigit :: "nat \<Rightarrow> char" where
  "hexDigit n = ''0123456789abcdef'' ! n"

definition hexByte :: "byte \<Rightarrow> string" where
  "hexByte b = [hexDigit (unat b div 16), hexDigit (unat b mod 16)]"

definition toStringHex :: "buffer \<Rightarrow> nat \<Rightarrow> nat \<Rightarrow> string" where
  "toStringHex data start stop = concat (map hexByte (take (stop - start) (drop start data)))"

text \<open>Sequencing of statements that may throw: the first throw ends the call.\<close>

definition bindE :: "error + 'a \<Rightarrow> ('a \<Rightarrow> error + 'b) \<Rightarrow> error + 'b" where
  "bindE m f = (case m of Inl e \<Rightarrow> Inl e | Inr v \<Rightarrow> f v)"

section \<open>Decoded records\<close>

record duration =
  number :: int
  unit :: string

record motion_durations =
  current :: duration
  previous :: duration

record vec3 =
  x :: rat
  y :: rat
  z :: rat

record nearable =
  nearableId :: string
  temperature :: rat
  isMoving :: bool
  motionStateDuration :: motion_durations
  acceleration :: vec3

record gpio_pins =
  pin0 :: string
  pin1 :: string
  pin2 :: string
  pin3 :: string

record error_codes =
  hasFirmwareError :: bool
  hasClockError :: bool

text \<open>
  A field whose JavaScript value is \<open>undefined\<close> is \<open>None\<close>. The \<open>switch\<close> that
  names the uptime unit has no default branch, so the unit is optional as well.
\<close>

record uptime_value =
  number :: int
  unit :: "string option"

record telemetryA =
  shortIdentifier :: string
  frameType :: string
  subFrameType :: string
  protocolVersion :: int
  acceleration :: vec3
  isMoving :: bool
  motionStateDuration :: motion_durations
  pressure :: "rat option"
  gpio :: gpio_pins
  errors :: "error_codes option"

record telemetryB =
  shortIdentifier :: string
  frameType :: string
  subFrameType :: string
  protocolVersion :: int
  magneticField :: vec3
  ambientLightLevel :: rat
  temperature :: rat
  uptime :: uptime_value
  batteryVoltage :: "int option"
  batteryLevel :: "int option"
  errors :: "error_codes option"

datatype telemetry = SubframeA telemetryA | SubframeB telemetryB

section \<open>Estimote Nearable\<close>

text \<open>The inner function \<open>parseMotionStateDuration\<close> of the Nearable parser.\<close>

definition parseMotionStateDuration_Nearable :: "int \<Rightarrow> duration" where
  "parseMotionStateDuration_Nearable byte =
     (let number = byte AND 63;
          unitCode = drop_bit 6 (byte AND 192)
      in if unitCode = 0 then \<lparr>duration.number = number, unit = ''seconds''\<rparr>
         else if unitCode = 1 then \<lparr>duration.number = number, unit = ''minutes''\<rparr>
         else if unitCode = 2 then \<lparr>duration.number = number, unit = ''hours''\<rparr>
         else if unitCode = 3 \<and> number < 32 then \<lparr>duration.number = number, unit = ''days''\<rparr>
         else \<lparr>duration.number = number - 32, unit = ''weeks''\<rparr>)"

text \<open>
  \<open>Inr None\<close> is the bare \<open>return;\<close> (the caller sees \<open>undefined\<close>),
  \<open>Inr (Some r)\<close> the returned object, \<open>Inl e\<close> a throw out of a Buffer read.
  The reads are sequenced in the order of the source.
\<close>

definition parseEstimoteNearablePacket :: "buffer \<Rightarrow> error + nearable option" where
  "parseEstimoteNearablePacket data =
     bindE (readUInt16LE data 0) (\<lambda>companyId.
     if companyId \<noteq> 0x015d then Inr None else
     bindE (readUInt8 data 2) (\<lambda>frameType.
     if frameType \<noteq> 0x01 then Inr None else
     let nearableId = toStringHex data 3 11 in
     bindE (readUInt16LE data 13) (\<lambda>word13.
     let temperatureRawValue = word13 AND 0x0fff;
         temperatureRawValue =
           (if temperatureRawValue > 2047 then temperatureRawValue - 4096
            else temperatureRawValue);
         temperature = of_int temperatureRawValue / 16 in
     bindE (readUInt8 data 15) (\<lambda>byte15.
     let isMoving = ((byte15 AND 64) = 1) in
     bindE (readInt8 data 16) (\<lambda>rawX.
     bindE (readInt8 data 17) (\<lambda>rawY.
     bindE (readInt8 data 18) (\<lambda>rawZ.
     let acceleration = \<lparr>x = of_int rawX * (125 / 8),
                         y = of_int rawY * (125 / 8),
                         z = of_int rawZ * (125 / 8)\<rparr> in
     bindE (readUInt8 data 19) (\<lambda>byte19.
     bindE (readUInt8 data 20) (\<lambda>byte20.
     let motionStateDuration =
           \<lparr>current = parseMotionStateDuration_Nearable byte19,
            previous = parseMotionStateDuration_Nearable byte20\<rparr> in
     Inr (Some \<lparr>nearableId = nearableId,
                temperature = temperature,
                nearable.isMoving = isMoving,
                nearable.motionStateDuration = motionStateDuration,
                nearable.acceleration = acceleration\<rparr>))))))))))"

section \<open>Estimote Telemetry\<close>

text \<open>The inner function \<open>parseMotionStateDuration\<close> of the Telemetry parser.\<close>

definition parseMotionStateDuration_Telemetry :: "int \<Rightarrow> duration" where
  "parseMotionStateDuration_Telemetry byte =
     (let number = byte AND 63;
          unitCode = drop_bit 6 (byte AND 192)
      in if unitCode = 0 then \<lparr>duration.number = number, unit = ''seconds''\<rparr>
         else if unitCode = 1 then \<lparr>duration.number = number, unit = ''minutes''\<rparr>
         else if unitCode = 2 then \<lparr>duration.number = number, unit = ''hours''\<rparr>
         else if unitCode = 3 \<and> number \<le> 32 then \<lparr>duration.number = number, unit = ''days''\<rparr>
         else \<lparr>duration.number = number - 32, unit = ''weeks''\<rparr>)"

text \<open>
  The parser proper. The local variable \<open>frameType\<close> of the source is named
  \<open>frameTypeCode\<close> here, since the returned object has a field \<open>frameType\<close> of its
  own (the string \<open>'Estimote Telemetry'\<close>). \<open>raw * 2\<close> is an integer and the quotient
  by \<open>127.0\<close> is rounded; \<open>Math.pow(2, upper)\<close> is the exact power of two (\<open>upper\<close>
  is at most 15), its product with \<open>lower\<close> is an integer, the literal \<open>0.72\<close> is the
  double nearest to \<open>72 / 100\<close>, and the last product is rounded. In subframe B the source assigns
  \<open>temperature\<close> without declaring it; the value returned is the one just assigned.
  A subframe selector other than 0 or 1 falls off the end of the function, which
  returns \<open>undefined\<close>.
\<close>

definition parseEstimoteTelemetryPacket :: "buffer \<Rightarrow> error + telemetry option" where
  "parseEstimoteTelemetryPacket data =
     bindE (readUInt8 data 0) (\<lambda>byte0.
     let frameTypeCode = byte0 AND 15 in
     if frameTypeCode \<noteq> 2 then Inr None else
     bindE (readUInt8 data 0) (\<lambda>byte0'.
     let protocolVersion = drop_bit 4 (byte0' AND 240) in
     if protocolVersion > 2 then Inr None else
     let shortIdentifier = toStringHex data 1 9 in
     bindE (readUInt8 data 9) (\<lambda>byte9.
     let subFrameType = byte9 AND 3 in
     if subFrameType = 0 then
       bindE (readInt8 data 10) (\<lambda>rawX.
       bindE (readInt8 data 11) (\<lambda>rawY.
       bindE (readInt8 data 12) (\<lambda>rawZ.
       let acceleration = \<lparr>x = roundDouble (of_int (rawX * 2) / 127),
                           y = roundDouble (of_int (rawY * 2) / 127),
                           z = roundDouble (of_int (rawZ * 2) / 127)\<rparr> in
       bindE (readUInt8 data 15) (\<lambda>motionByte.
       let isMoving = ((motionByte AND 3) = 1) in
       bindE (readUInt8 data 13) (\<lambda>byte13.
       bindE (readUInt8 data 14) (\<lambda>byte14.
       let motionStateDuration =
             \<lparr>current = parseMotionStateDuration_Telemetry byte14,
              previous = parseMotionStateDuration_Telemetry byte13\<rparr> in
       bindE (readUInt8 data 15) (\<lambda>gpio0.
       bindE (readUInt8 data 15) (\<lambda>gpio1.
       bindE (readUInt8 data 15) (\<lambda>gpio2.
       bindE (readUInt8 data 15) (\<lambda>gpio3.
       let gpio = \<lparr>pin0 = (if drop_bit 4 (gpio0 AND 16) \<noteq> 0 then ''high'' else ''low''),
                   pin1 = (if drop_bit 5 (gpio1 AND 32) \<noteq> 0 then ''high'' else ''low''),
                   pin2 = (if drop_bit 6 (gpio2 AND 64) \<noteq> 0 then ''high'' else ''low''),
                   pin3 = (if drop_bit 7 (gpio3 AND 128) \<noteq> 0 then ''high'' else ''low'')\<rparr> in
       bindE (if protocolVersion = 2 then
                bindE (readUInt8 data 15) (\<lambda>e0.
                bindE (readUInt8 data 15) (\<lambda>e1.
                Inr (Some \<lparr>hasFirmwareError = (drop_bit 2 (e0 AND 4) = 1),
                           hasClockError = (drop_bit 3 (e1 AND 8) = 1)\<rparr>)))
              else if protocolVersion = 1 then
                bindE (readUInt8 data 16) (\<lambda>e0.
                bindE (readUInt8 data 16) (\<lambda>e1.
                Inr (Some \<lparr>hasFirmwareError = ((e0 AND 1) = 1),
                           hasClockError = (drop_bit 1 (e1 AND 2) = 1)\<rparr>)))
              else Inr None) (\<lambda>errors.
       bindE (if protocolVersion = 2 then
                bindE (readUInt32LE data 16) (\<lambda>rawPressure.
                Inr (Some (of_int rawPressure / 256)))
              else Inr None) (\<lambda>pressure.
       Inr (Some (SubframeA
         \<lparr>telemetryA.shortIdentifier = shortIdentifier,
          telemetryA.frameType = ''Estimote Telemetry'',
          telemetryA.subFrameType = ''A'',
          telemetryA.protocolVersion = protocolVersion,
          telemetryA.acceleration = acceleration,
          telemetryA.isMoving = isMoving,
          telemetryA.motionStateDuration = motionStateDuration,
          pressure = pressure,
          gpio = gpio,
          telemetryA.errors = errors\<rparr>))))))))))))))
     else if subFrameType = 1 then
       bindE (readInt8 data 10) (\<lambda>rawX.
       bindE (readInt8 data 11) (\<lambda>rawY.
       bindE (readInt8 data 12) (\<lambda>rawZ.
       let magneticField = \<lparr>x = of_int rawX / 128,
                            y = of_int rawY / 128,
                            z = of_int rawZ / 128\<rparr> in
       bindE (readUInt8 data 13) (\<lambda>light0.
       let ambientLightUpper = drop_bit 4 (light0 AND 240) in
       bindE (readUInt8 data 13) (\<lambda>light1.
       let ambientLightLower = light1 AND 15;
           ambientLightLevel =
             roundDouble (2 ^ nat ambientLightUpper * of_int ambientLightLower
                          * roundDouble (72 / 100)) in
       bindE (readUInt8 data 15) (\<lambda>unitByte.
       let uptimeUnitCode = drop_bit 4 (unitByte AND 48);
           uptimeUnit =
             (if uptimeUnitCode = 0 then Some ''seconds''
              else if uptimeUnitCode = 1 then Some ''minutes''
              else if uptimeUnitCode = 2 then Some ''hours''
              else if uptimeUnitCode = 3 then Some ''days''
              else None) in
       bindE (readUInt8 data 15) (\<lambda>uptimeHigh.
       bindE (readUInt8 data 14) (\<lambda>uptimeLow.
       let uptime = \<lparr>uptime_value.number = push_bit 8 (uptimeHigh AND 15) OR uptimeLow,
                     uptime_value.unit = uptimeUnit\<rparr> in
       bindE (readUInt8 data 17) (\<lambda>temp17.
       bindE (readUInt8 data 16) (\<lambda>temp16.
       bindE (readUInt8 data 15) (\<lambda>temp15.
       let temperatureRawValue =
             push_bit 10 (temp17 AND 3) OR push_bit 2 temp16 OR drop_bit 6 (temp15 AND 192);
           temperatureRawValue =
             (if temperatureRawValue > 2047 then temperatureRawValue - 4096
              else temperatureRawValue);
           temperature = of_int temperatureRawValue / 16 in
       bindE (readUInt8 data 18) (\<lambda>volt18.
       bindE (readUInt8 data 17) (\<lambda>volt17.
       let batteryVoltage = push_bit 6 volt18 OR drop_bit 2 (volt17 AND 252);
           batteryVoltage = (if batteryVoltage = 16383 then None else Some batteryVoltage) in
       bindE (if protocolVersion = 0 then
                bindE (readUInt8 data 19) (\<lambda>e0.
                bindE (readUInt8 data 19) (\<lambda>e1.
                Inr (Some \<lparr>hasFirmwareError = ((e0 AND 1) = 1),
                           hasClockError = (drop_bit 1 (e1 AND 2) = 1)\<rparr>)))
              else Inr None) (\<lambda>errors.
       bindE (if protocolVersion \<ge> 1 then
                bindE (readUInt8 data 19) (\<lambda>batteryLevel.
                Inr (if batteryLevel = 255 then None else Some batteryLevel))
              else Inr None) (\<lambda>batteryLevel.
       Inr (Some (SubframeB
         \<lparr>telemetryB.shortIdentifier = shortIdentifier,
          telemetryB.frameType = ''Estimote Telemetry'',
          telemetryB.subFrameType = ''B'',
          telemetryB.protocolVersion = protocolVersion,
          magneticField = magneticField,
          ambientLightLevel = ambientLightLevel,
          telemetryB.temperature = temperature,
          uptime = uptime,
          batteryVoltage = batteryVoltage,
          batteryLevel = batteryLevel,
          telemetryB.errors = errors\<rparr>)))))))))))))))))
     else Inr None)))"

section \<open>Example buffers\<close>

text \<open>
  A Nearable packet: company identifier \<open>0x015d\<close>, frame type \<open>0x01\<close>, eight
  identifier bytes, two unused bytes, the bytes \<open>0x00, 0x10\<close> at offsets 13 and 14,
  bit 6 set in byte 15, raw accelerations 10, -20 and 30, and two durations of 5 seconds.
\<close>

definition nearable_example :: buffer where
  "nearable_example =
     [0x5D, 0x01, 0x01, 0x01, 0x02, 0x03, 0x04, 0x05, 0x06, 0x07, 0x08, 0x00, 0x00,
      0x00, 0x10, 0x40, 0x0A, 0xEC, 0x1E, 0x05, 0x05]"

text \<open>
  A Telemetry packet, subframe A, protocol version 2, with the pressure bytes
  \<open>0xFC, 0x98, 0x88, 0x01\<close> at offsets 16 to 19.
\<close>

definition telemetryA_example :: buffer where
  "telemetryA_example =
     [0x22, 0x01, 0x02, 0x03, 0x04, 0x05, 0x06, 0x07, 0x08, 0x00, 0x0A, 0xEC, 0x1E,
      0xE0, 0xE1, 0x00, 0xFC, 0x98, 0x88, 0x01]"

text \<open>
  Telemetry subframe A, protocol version 1, 20 bytes: motion selector 3 in the low two
  bits of byte 15 (with pins 1 and 3 high), clock error flagged in byte 16.
\<close>

definition telemetryA_v1_example :: buffer where
  "telemetryA_v1_example =
     [0x12, 0x01, 0x02, 0x03, 0x04, 0x05, 0x06, 0x07, 0x08, 0x00, 0x0A, 0xEC, 0x1E,
      0x45, 0x03, 0xA3, 0x02, 0x00, 0x00, 0x00]"

text \<open>Telemetry subframe A, protocol version 0, 16 bytes, motion selector 1.\<close>

definition telemetryA_v0_example :: buffer where
  "telemetryA_v0_example =
     [0x02, 0x01, 0x02, 0x03, 0x04, 0x05, 0x06, 0x07, 0x08, 0x00, 0x0A, 0xEC, 0x1E,
      0x45, 0x03, 0x01]"

text \<open>
  Telemetry subframe B, protocol version 0: raw temperature 360 (22.5 degrees),
  battery voltage 3000 mV, both error bits set in byte 19.
\<close>

definition telemetryB_example :: buffer where
  "telemetryB_example =
     [0x02, 0x01, 0x02, 0x03, 0x04, 0x05, 0x06, 0x07, 0x08, 0x01, 0x0A, 0xEC, 0x1E,
      0x35, 0xE1, 0x0E, 0x5A, 0xE0, 0x2E, 0x03]"

text \<open>
  Telemetry subframe B, protocol version 1: raw temperature 4016 (-5 degrees), all
  fourteen bits of the battery voltage set, battery level byte 255.
\<close>

definition telemetryB_unmeasured :: buffer where
  "telemetryB_unmeasured =
     [0x12, 0x01, 0x02, 0x03, 0x04, 0x05, 0x06, 0x07, 0x08, 0x01, 0x0A, 0xEC, 0x1E,
      0x35, 0xE1, 0x0E, 0xEC, 0xFF, 0xFF, 0xFF]"

text \<open>
  Telemetry subframe B, protocol version 2: battery voltage 3000 mV, battery level 87.
\<close>

definition telemetryB_level :: buffer where
  "telemetryB_level =
     [0x22, 0x01, 0x02, 0x03, 0x04, 0x05, 0x06, 0x07, 0x08, 0x01, 0x0A, 0xEC, 0x1E,
      0x35, 0xE1, 0x0E, 0x5A, 0xE0, 0x2E, 0x57]"

section \<open>Rounding, evaluated\<close>

text \<open>
  The doubles of the example buffers: \<open>20 / 127.0\<close>, \<open>-40 / 127.0\<close> and
  \<open>60 / 127.0\<close>, the literal \<open>0.72\<close>, and \<open>8 * 5 * 0.72\<close>, which is
  28.799999999999997 and not the double nearest to \<open>144 / 5\<close>. Values with at most 53
  significant bits are left as they are.
\<close>

lemma roundDouble_20_127:
  "roundDouble (20 / 127) = 2836913151099525 / 18014398509481984"
  by code_simp

lemma roundDouble_minus_40_127:
  "roundDouble (- (40 / 127)) = - (2836913151099525 / 9007199254740992)"
  by code_simp

lemma roundDouble_60_127:
  "roundDouble (60 / 127) = 8510739453298575 / 18014398509481984"
  by code_simp

lemma roundDouble_literal_072:
  "roundDouble (72 / 100) = 3242591731706757 / 4503599627370496"
  by code_simp

lemma roundDouble_light_0xFF:
  "roundDouble (2 ^ 15 * 15 * roundDouble (72 / 100)) = 6079859496950169 / 17179869184"
  by code_simp

lemma roundDouble_light_0x35:
  "roundDouble (2 ^ 3 * 5 * roundDouble (72 / 100)) = 2026619832316723 / 70368744177664
   \<and> roundDouble (144 / 5) \<noteq> 2026619832316723 / 70368744177664"
  by code_simp

lemma roundDouble_exact_examples:
  "roundDouble (25729276 / 256) = 25729276 / 256
   \<and> roundDouble (- (80 / 16)) = - (80 / 16)
   \<and> roundDouble (- 128 * (125 / 8)) = - 128 * (125 / 8)
   \<and> roundDouble (127 / 128) = 127 / 128
   \<and> roundDouble 0 = 0"
  by code_simp

section \<open>Bit fields of a byte, arithmetically\<close>

lemma and1: "(b::int) AND 1 = b mod 2"
  using take_bit_eq_mask [of 1 b] by (simp add: take_bit_eq_mod mask_eq_exp_minus_1)

lemma and3: "(b::int) AND 3 = b mod 4"
  using take_bit_eq_mask [of 2 b] by (simp add: take_bit_eq_mod mask_eq_exp_minus_1)

lemma and15: "(b::int) AND 15 = b mod 16"
  using take_bit_eq_mask [of 4 b] by (simp add: take_bit_eq_mod mask_eq_exp_minus_1)

lemma and63: "(b::int) AND 63 = b mod 64"
  using take_bit_eq_mask [of 6 b] by (simp add: take_bit_eq_mod mask_eq_exp_minus_1)

lemma uint_byte_lt: "uint (w::byte) < 256"
  using uint_lt2p [of w] by simp

lemma drop6_and192:
  assumes "0 \<le> b" "b < 256"
  shows "drop_bit 6 ((b::int) AND 192) = b div 64"
proof -
  have "drop_bit 6 (b AND 192) = drop_bit 6 b AND 3" by simp
  also have "\<dots> = (b div 64) mod 4" by (simp add: and3 drop_bit_eq_div)
  also have "\<dots> = b div 64" using assms by simp
  finally show ?thesis .
qed

lemma drop4_and240:
  assumes "0 \<le> b" "b < 256"
  shows "drop_bit 4 ((b::int) AND 240) = b div 16"
proof -
  have "drop_bit 4 (b AND 240) = drop_bit 4 b AND 15" by simp
  also have "\<dots> = (b div 16) mod 16" by (simp add: and15 drop_bit_eq_div)
  also have "\<dots> = b div 16" using assms by simp
  finally show ?thesis .
qed

lemma drop2_and252:
  assumes "0 \<le> b" "b < 256"
  shows "drop_bit 2 ((b::int) AND 252) = b div 4"
proof -
  have "drop_bit 2 (b AND 252) = drop_bit 2 b AND 63" by simp
  also have "\<dots> = (b div 4) mod 64" by (simp add: and63 drop_bit_eq_div)
  also have "\<dots> = b div 4" using assms by simp
  finally show ?thesis .
qed

lemma byte_hi2: "drop_bit 6 (uint (w::byte) AND 192) = uint w div 64"
  by (rule drop6_and192) (simp_all add: uint_byte_lt)

lemma byte_hi4: "drop_bit 4 (uint (w::byte) AND 240) = uint w div 16"
  by (rule drop4_and240) (simp_all add: uint_byte_lt)

lemma byte_hi6: "drop_bit 2 (uint (w::byte) AND 252) = uint w div 4"
  by (rule drop2_and252) (simp_all add: uint_byte_lt)

lemmas byte_fields = byte_hi4 byte_hi2 byte_hi6 and15 and3 and63 and1

text \<open>A field shifted above the bits of another one: the bitwise OR is a sum.\<close>

lemma or_add:
  assumes "0 \<le> a" "a < 2 ^ n"
  shows "push_bit n (b::int) OR a = b * 2 ^ n + a"
proof -
  have a: "take_bit n a = a" using assms by (simp add: take_bit_int_eq_self)
  have "push_bit n b AND take_bit n a = 0" by (auto simp add: bit_eq_iff bit_simps)
  then have "push_bit n b + a = push_bit n b OR a" using a by (simp add: disjunctive_add_eq_or)
  then show ?thesis by (simp add: push_bit_eq_mult)
qed

lemma byte_temp_raw:
  "push_bit 10 (uint (b17::byte) AND 3) OR push_bit 2 (uint (b16::byte))
     OR drop_bit 6 (uint (b15::byte) AND 192)
   = uint b17 mod 4 * 1024 + uint b16 * 4 + uint b15 div 64"
proof -
  have lo: "0 \<le> uint b15 div 64" "uint b15 div 64 < 2 ^ 2"
    using uint_byte_lt [of b15] by (simp_all add: div_int_pos_iff)
  have mid: "0 \<le> uint b16 * 4 + uint b15 div 64" "uint b16 * 4 + uint b15 div 64 < 2 ^ 10"
    using uint_byte_lt [of b15] uint_byte_lt [of b16] by (simp_all add: div_int_pos_iff)
  have "push_bit 2 (uint b16) OR uint b15 div 64 = uint b16 * 4 + uint b15 div 64"
    using or_add [OF lo, of "uint b16"] by simp
  then have "push_bit 10 (uint b17 AND 3) OR (push_bit 2 (uint b16) OR uint b15 div 64)
        = uint b17 mod 4 * 1024 + (uint b16 * 4 + uint b15 div 64)"
    using or_add [OF mid, of "uint b17 AND 3"] by (simp only: and3) simp
  then show ?thesis unfolding byte_hi2 by (simp only: or.assoc add.assoc)
qed

lemma byte_volt_raw:
  "push_bit 6 (uint (b18::byte)) OR drop_bit 2 (uint (b17::byte) AND 252)
   = uint b18 * 64 + uint b17 div 4"
proof -
  have lo: "0 \<le> uint b17 div 4" "uint b17 div 4 < 2 ^ 6"
    using uint_byte_lt [of b17] by (simp_all add: div_int_pos_iff)
  show ?thesis unfolding byte_hi6 using or_add [OF lo, of "uint b18"] by simp
qed

text \<open>The masked value \<open>b & 0b01000000\<close> is 0 or 64, never 1.\<close>

lemma and64_neq_1: "((b::int) AND 64) \<noteq> 1"
proof
  assume "b AND 64 = 1"
  then have "odd (b AND 64)" by simp
  then show False by (simp add: even_and_iff)
qed

lemma bit0_iff: "((e::int) AND 1) = 1 \<longleftrightarrow> bit e 0"
  by (simp add: and1 bit_0 odd_iff_mod_2_eq_one)

lemma bitn_iff: "drop_bit n ((e::int) AND 2 ^ n) = 1 \<longleftrightarrow> bit e n"
proof -
  have "drop_bit n (e AND 2 ^ n) = drop_bit n e AND 1"
    by (simp add: drop_bit_exp_eq)
  then show ?thesis
    by (simp add: and1 bit_iff_odd_drop_bit odd_iff_mod_2_eq_one)
qed

lemma bit1_iff: "drop_bit 1 ((e::int) AND 2) = 1 \<longleftrightarrow> bit e 1"
  using bitn_iff [of 1 e] by simp

lemma bit2_iff: "drop_bit 2 ((e::int) AND 4) = 1 \<longleftrightarrow> bit e 2"
  using bitn_iff [of 2 e] by simp

lemma bit3_iff: "drop_bit 3 ((e::int) AND 8) = 1 \<longleftrightarrow> bit e 3"
  using bitn_iff [of 3 e] by simp

lemmas error_bits = bit0_iff bit1_iff bit2_iff bit3_iff bit_uint_iff

section \<open>Reads and sequencing\<close>

lemma readUInt8_range: "readUInt8 data k = Inr v \<Longrightarrow> 0 \<le> v \<and> v < 2 ^ 8"
  using uint_byte_lt [of "data ! k"] by (auto simp: readUInt8_def split: if_splits)

lemma readUInt16LE_range: "readUInt16LE data k = Inr v \<Longrightarrow> 0 \<le> v \<and> v < 2 ^ 16"
  using uint_byte_lt [of "data ! k"] uint_byte_lt [of "data ! (k + 1)"]
  by (auto simp: readUInt16LE_def split: if_splits)

lemma bindE_Inr [simp]: "bindE (Inr v) f = f v"
  by (simp add: bindE_def)

lemma bindE_Inl [simp]: "bindE (Inl e) f = Inl e"
  by (simp add: bindE_def)

lemma bindE_Inr_E:
  "bindE m f = Inr res \<Longrightarrow> (\<And>v. m = Inr v \<Longrightarrow> f v = Inr res \<Longrightarrow> P) \<Longrightarrow> P"
  by (cases m) simp_all

lemma readUInt8_Inr_iff:
  "readUInt8 data k = Inr v \<longleftrightarrow> k < length data \<and> v = uint (data ! k)"
  by (auto simp: readUInt8_def)

lemma readInt8_Inr_iff:
  "readInt8 data k = Inr v \<longleftrightarrow> k < length data \<and> v = sint (data ! k)"
  by (auto simp: readInt8_def)

lemma readUInt16LE_Inr_iff:
  "readUInt16LE data k = Inr v \<longleftrightarrow>
     k + 1 < length data \<and> v = uint (data ! k) + uint (data ! (k + 1)) * 2 ^ 8"
  by (auto simp: readUInt16LE_def)

lemma readUInt32LE_Inr_iff:
  "readUInt32LE data k = Inr v \<longleftrightarrow>
     k + 3 < length data \<and>
     v = uint (data ! k) + uint (data ! (k + 1)) * 2 ^ 8
       + uint (data ! (k + 2)) * 2 ^ 16 + uint (data ! (k + 3)) * 2 ^ 24"
  by (auto simp: readUInt32LE_def)

lemmas read_iffs = readUInt8_Inr_iff readInt8_Inr_iff readUInt16LE_Inr_iff readUInt32LE_Inr_iff

lemmas read_defs = readUInt8_def readInt8_def readUInt16LE_def readUInt32LE_def

lemmas hex_defs = toStringHex_def hexByte_def hexDigit_def

section \<open>Control flow of the parsers\<close>

text \<open>The protocol version is a 4-bit value: it is 0, 1, 2 or larger than 2.\<close>

lemma version_cases:
  "drop_bit 4 (uint (b::byte) AND 240) = 0 \<or> drop_bit 4 (uint b AND 240) = 1
   \<or> drop_bit 4 (uint b AND 240) = 2 \<or> 2 < drop_bit 4 (uint b AND 240)"
proof -
  have "0 \<le> drop_bit 4 (uint b AND 240)" by simp
  then show ?thesis by arith
qed

text \<open>
  Case splits are confined to the conditionals that decide what a parser returns or
  reads next; those inside the returned fields stay as they are.
\<close>

lemma if_sum_split_asm:
  "P (if Q then (u :: error + 'b) else v) = (\<not> (Q \<and> \<not> P u \<or> \<not> Q \<and> \<not> P v))"
  by (rule if_split_asm)

text \<open>
  A parser that returned a record has passed the discriminator checks and has read every
  byte of the layout it selected, so the buffer is at least that long.
\<close>

lemma telemetryA_header:
  assumes "parseEstimoteTelemetryPacket data = Inr (Some (SubframeA r))"
  shows "16 \<le> length data \<and> uint (data ! 0) AND 15 = 2 \<and> drop_bit 4 (uint (data ! 0) AND 240) \<le> 2
       \<and> uint (data ! 9) AND 3 = 0
       \<and> (drop_bit 4 (uint (data ! 0) AND 240) = 1 \<longrightarrow> 17 \<le> length data)
       \<and> (drop_bit 4 (uint (data ! 0) AND 240) = 2 \<longrightarrow> 20 \<le> length data)"
  using version_cases [of "data ! 0"] assms
  unfolding parseEstimoteTelemetryPacket_def Let_def
  by (auto elim!: bindE_Inr_E simp add: read_iffs split: if_sum_split_asm)

lemma telemetryB_header:
  assumes "parseEstimoteTelemetryPacket data = Inr (Some (SubframeB r))"
  shows "20 \<le> length data \<and> uint (data ! 0) AND 15 = 2 \<and> drop_bit 4 (uint (data ! 0) AND 240) \<le> 2
       \<and> uint (data ! 9) AND 3 = 1"
  using version_cases [of "data ! 0"] assms
  unfolding parseEstimoteTelemetryPacket_def Let_def
  by (auto elim!: bindE_Inr_E simp add: read_iffs split: if_sum_split_asm)

lemma nearable_header:
  assumes "parseEstimoteNearablePacket data = Inr (Some r)"
  shows "21 \<le> length data \<and> uint (data ! 0) + uint (data ! 1) * 2 ^ 8 = 0x015d \<and> uint (data ! 2) = 1"
  using assms
  unfolding parseEstimoteNearablePacket_def Let_def
  by (auto elim!: bindE_Inr_E simp add: read_iffs split: if_sum_split_asm)

text \<open>
  There is one error. A sequence of reads throws when the first read is out of range
  or the rest of the sequence throws.
\<close>

lemma error_unique: "(e :: error) = ERR_OUT_OF_RANGE"
  by (cases e) simp

lemma bind_readUInt8_Inl:
  "bindE (readUInt8 data k) f = Inl e \<longleftrightarrow> (k < length data \<longrightarrow> f (uint (data ! k)) = Inl e)"
  using error_unique [of e] by (simp add: readUInt8_def)

lemma bind_readInt8_Inl:
  "bindE (readInt8 data k) f = Inl e \<longleftrightarrow> (k < length data \<longrightarrow> f (sint (data ! k)) = Inl e)"
  using error_unique [of e] by (simp add: readInt8_def)

lemma bind_readUInt16LE_Inl:
  "bindE (readUInt16LE data k) f = Inl e \<longleftrightarrow>
     (k + 1 < length data \<longrightarrow> f (uint (data ! k) + uint (data ! (k + 1)) * 2 ^ 8) = Inl e)"
  using error_unique [of e] by (simp add: readUInt16LE_def)

lemma bind_readUInt32LE_Inl:
  "bindE (readUInt32LE data k) f = Inl e \<longleftrightarrow>
     (k + 3 < length data \<longrightarrow>
        f (uint (data ! k) + uint (data ! (k + 1)) * 2 ^ 8
           + uint (data ! (k + 2)) * 2 ^ 16 + uint (data ! (k + 3)) * 2 ^ 24) = Inl e)"
  using error_unique [of e] by (simp add: readUInt32LE_def)

lemma bindE_assoc: "bindE (bindE m f) g = bindE m (\<lambda>v. bindE (f v) g)"
  by (cases m) simp_all

lemmas bind_Inl_iffs =
  bindE_assoc bind_readUInt8_Inl bind_readInt8_Inl bind_readUInt16LE_Inl bind_readUInt32LE_Inl

text \<open>When each parser throws, by the length of the buffer and the discriminators.\<close>

lemma nearable_error_iff:
  "parseEstimoteNearablePacket data = Inl ERR_OUT_OF_RANGE \<longleftrightarrow>
     length data < 2 \<or>
     uint (data ! 0) + uint (data ! 1) * 256 = 0x015d \<and>
       (length data < 3 \<or> uint (data ! 2) = 0x01 \<and> length data < 21)"
proof (cases "length data < 3")
  case True
  then show ?thesis
    unfolding parseEstimoteNearablePacket_def Let_def by (auto simp add: bind_Inl_iffs)
next
  case long: False
  show ?thesis
  proof (cases "length data < 21")
    case True
    with long show ?thesis
      unfolding parseEstimoteNearablePacket_def Let_def by (simp add: bind_Inl_iffs)
  next
    case False
    then show ?thesis
      unfolding parseEstimoteNearablePacket_def Let_def by (simp add: bind_Inl_iffs)
  qed
qed

lemma telemetry_error_iff_bits:
  "parseEstimoteTelemetryPacket data = Inl ERR_OUT_OF_RANGE \<longleftrightarrow>
     length data < 1 \<or>
     uint (data ! 0) AND 15 = 2 \<and> drop_bit 4 (uint (data ! 0) AND 240) \<le> 2 \<and>
       (length data < 10
        \<or> uint (data ! 9) AND 3 = 0 \<and>
            length data < (if drop_bit 4 (uint (data ! 0) AND 240) = 2 then 20
                           else if drop_bit 4 (uint (data ! 0) AND 240) = 1 then 17 else 16)
        \<or> uint (data ! 9) AND 3 = 1 \<and> length data < 20)"
proof -
  consider (empty) "length data < 1"
    | (foreign) "\<not> length data < 1" "uint (data ! 0) AND 15 \<noteq> 2"
    | (newer) "\<not> length data < 1" "uint (data ! 0) AND 15 = 2"
        "2 < drop_bit 4 (uint (data ! 0) AND 240)"
    | (v0) "\<not> length data < 1" "uint (data ! 0) AND 15 = 2"
        "drop_bit 4 (uint (data ! 0) AND 240) = 0"
    | (v1) "\<not> length data < 1" "uint (data ! 0) AND 15 = 2"
        "drop_bit 4 (uint (data ! 0) AND 240) = 1"
    | (v2) "\<not> length data < 1" "uint (data ! 0) AND 15 = 2"
        "drop_bit 4 (uint (data ! 0) AND 240) = 2"
    using version_cases [of "data ! 0"] by blast
  then show ?thesis
  proof cases
    case empty
    then show ?thesis
      unfolding parseEstimoteTelemetryPacket_def Let_def by (simp add: bind_Inl_iffs)
  next
    case foreign
    then show ?thesis
      unfolding parseEstimoteTelemetryPacket_def Let_def by (simp add: bind_Inl_iffs)
  next
    case newer
    then show ?thesis
      unfolding parseEstimoteTelemetryPacket_def Let_def by (simp add: bind_Inl_iffs)
  next
  case v0
  note d = parseEstimoteTelemetryPacket_def Let_def
  consider (short) "length data < 10"
    | (A) "\<not> length data < 10" "uint (data ! 9) AND 3 = 0"
    | (B) "\<not> length data < 10" "uint (data ! 9) AND 3 = 1"
    | (other) "\<not> length data < 10" "uint (data ! 9) AND 3 \<noteq> 0" "uint (data ! 9) AND 3 \<noteq> 1"
    by blast
  then show ?thesis
  proof cases
    case short
    with v0 show ?thesis unfolding d by (simp add: bind_Inl_iffs split del: if_split)
  next
    case A
    show ?thesis
    proof (cases "length data < 16")
      case True
      with v0 A show ?thesis unfolding d by (simp add: bind_Inl_iffs split del: if_split)
    next
      case False
      with v0 A show ?thesis unfolding d by (simp add: bind_Inl_iffs split del: if_split)
    qed
  next
    case B
    show ?thesis
    proof (cases "length data < 20")
      case True
      with v0 B show ?thesis unfolding d by (simp add: bind_Inl_iffs split del: if_split)
    next
      case False
      with v0 B show ?thesis unfolding d by (simp add: bind_Inl_iffs split del: if_split)
    qed
  next
    case other
    with v0 show ?thesis unfolding d by (simp add: bind_Inl_iffs split del: if_split)
  qed
  next
  case v1
  note d = parseEstimoteTelemetryPacket_def Let_def
  consider (short) "length data < 10"
    | (A) "\<not> length data < 10" "uint (data ! 9) AND 3 = 0"
    | (B) "\<not> length data < 10" "uint (data ! 9) AND 3 = 1"
    | (other) "\<not> length data < 10" "uint (data ! 9) AND 3 \<noteq> 0" "uint (data ! 9) AND 3 \<noteq> 1"
    by blast
  then show ?thesis
  proof cases
    case short
    with v1 show ?thesis unfolding d by (simp add: bind_Inl_iffs split del: if_split)
  next
    case A
    show ?thesis
    proof (cases "length data < 17")
      case True
      with v1 A show ?thesis unfolding d by (simp add: bind_Inl_iffs split del: if_split)
    next
      case False
      with v1 A show ?thesis unfolding d by (simp add: bind_Inl_iffs split del: if_split)
    qed
  next
    case B
    show ?thesis
    proof (cases "length data < 20")
      case True
      with v1 B show ?thesis unfolding d by (simp add: bind_Inl_iffs split del: if_split)
    next
      case False
      with v1 B show ?thesis unfolding d by (simp add: bind_Inl_iffs split del: if_split)
    qed
  next
    case other
    with v1 show ?thesis unfolding d by (simp add: bind_Inl_iffs split del: if_split)
  qed
  next
  case v2
  note d = parseEstimoteTelemetryPacket_def Let_def
  consider (short) "length data < 10"
    | (A) "\<not> length data < 10" "uint (data ! 9) AND 3 = 0"
    | (B) "\<not> length data < 10" "uint (data ! 9) AND 3 = 1"
    | (other) "\<not> length data < 10" "uint (data ! 9) AND 3 \<noteq> 0" "uint (data ! 9) AND 3 \<noteq> 1"
    by blast
  then show ?thesis
  proof cases
    case short
    with v2 show ?thesis unfolding d by (simp add: bind_Inl_iffs split del: if_split)
  next
    case A
    show ?thesis
    proof (cases "length data < 20")
      case True
      with v2 A show ?thesis unfolding d by (simp add: bind_Inl_iffs split del: if_split)
    next
      case False
      with v2 A show ?thesis unfolding d by (simp add: bind_Inl_iffs split del: if_split)
    qed
  next
    case B
    show ?thesis
    proof (cases "length data < 20")
      case True
      with v2 B show ?thesis unfolding d by (simp add: bind_Inl_iffs split del: if_split)
    next
      case False
      with v2 B show ?thesis unfolding d by (simp add: bind_Inl_iffs split del: if_split)
    qed
  next
    case other
    with v2 show ?thesis unfolding d by (simp add: bind_Inl_iffs split del: if_split)
  qed
  qed
qed

section \<open>The fields of a returned Telemetry record\<close>

lemma bit1_iff_Suc: "drop_bit (Suc 0) ((e::int) AND 2) = 1 \<longleftrightarrow> bit e (Suc 0)"
  using bitn_iff [of "Suc 0" e] by simp

text \<open>
  Version, motion flag, pressure and error flags of a subframe A record, and version,
  temperature, battery fields and error flags of a subframe B record, in terms of the
  bytes of the buffer.
\<close>

lemma telemetryA_fields:
  assumes "parseEstimoteTelemetryPacket data = Inr (Some (SubframeA r))"
  shows "telemetryA.protocolVersion r = uint (data ! 0) div 16
     \<and> (telemetryA.isMoving r \<longleftrightarrow> uint (data ! 15) mod 4 = 1)
     \<and> pressure r =
           (if uint (data ! 0) div 16 = 2
            then Some (of_int (uint (data ! 16) + uint (data ! 17) * 2 ^ 8
                              + uint (data ! 18) * 2 ^ 16 + uint (data ! 19) * 2 ^ 24) / 256)
            else None)
     \<and> telemetryA.errors r =
           (if uint (data ! 0) div 16 = 2
            then Some \<lparr>hasFirmwareError = bit (data ! 15) 2, hasClockError = bit (data ! 15) 3\<rparr>
            else if uint (data ! 0) div 16 = 1
            then Some \<lparr>hasFirmwareError = bit (data ! 16) 0, hasClockError = bit (data ! 16) 1\<rparr>
            else None)"
proof -
  note h = telemetryA_header [OF assms]
  note rw = read_defs error_bits bit1_iff_Suc and3
  note dl = drop_bit_and push_bit_and push_bit_or drop_bit_or
  have ne: "data \<noteq> []" using h by auto
  have v: "drop_bit 4 (uint (data ! 0) AND 240) = uint (data ! 0) div 16" by (rule byte_hi4)
  consider (v0) "drop_bit 4 (uint (data ! 0) AND 240) = 0"
    | (v1) "drop_bit 4 (uint (data ! 0) AND 240) = 1"
    | (v2) "drop_bit 4 (uint (data ! 0) AND 240) = 2"
    using version_cases [of "data ! 0"] h by linarith
  then show ?thesis
  proof cases
    case v0
    then have v': "uint (data ! 0) div 16 = 0" using v by simp
    show ?thesis using assms h v0 ne unfolding parseEstimoteTelemetryPacket_def Let_def v'
      by (clarsimp simp add: rw simp del: dl)
  next
    case v1
    then have v': "uint (data ! 0) div 16 = 1" using v by simp
    show ?thesis using assms h v1 ne unfolding parseEstimoteTelemetryPacket_def Let_def v'
      by (clarsimp simp add: rw simp del: dl)
  next
    case v2
    then have v': "uint (data ! 0) div 16 = 2" using v by simp
    show ?thesis using assms h v2 ne unfolding parseEstimoteTelemetryPacket_def Let_def v'
      by (clarsimp simp add: rw simp del: dl)
  qed
qed

lemma telemetryB_fields:
  assumes "parseEstimoteTelemetryPacket data = Inr (Some (SubframeB r))"
  shows "telemetryB.protocolVersion r = uint (data ! 0) div 16
     \<and> telemetryB.temperature r =
           of_int (if uint (data ! 17) mod 4 * 1024 + uint (data ! 16) * 4 + uint (data ! 15) div 64 > 2047
                   then uint (data ! 17) mod 4 * 1024 + uint (data ! 16) * 4 + uint (data ! 15) div 64 - 4096
                   else uint (data ! 17) mod 4 * 1024 + uint (data ! 16) * 4 + uint (data ! 15) div 64) / 16
     \<and> batteryVoltage r =
           (if uint (data ! 18) * 64 + uint (data ! 17) div 4 = 16383 then None
            else Some (uint (data ! 18) * 64 + uint (data ! 17) div 4))
     \<and> batteryLevel r =
           (if uint (data ! 0) div 16 \<ge> 1
            then (if uint (data ! 19) = 255 then None else Some (uint (data ! 19)))
            else None)
     \<and> telemetryB.errors r =
           (if uint (data ! 0) div 16 = 0
            then Some \<lparr>hasFirmwareError = bit (data ! 19) 0, hasClockError = bit (data ! 19) 1\<rparr>
            else None)"
proof -
  note h = telemetryB_header [OF assms]
  note rw = read_defs error_bits bit1_iff_Suc byte_temp_raw byte_volt_raw
  note dl = drop_bit_and push_bit_and push_bit_or drop_bit_or
  have ne: "data \<noteq> []" using h by auto
  have v: "drop_bit 4 (uint (data ! 0) AND 240) = uint (data ! 0) div 16" by (rule byte_hi4)
  consider (v0) "drop_bit 4 (uint (data ! 0) AND 240) = 0"
    | (v1) "drop_bit 4 (uint (data ! 0) AND 240) = 1"
    | (v2) "drop_bit 4 (uint (data ! 0) AND 240) = 2"
    using version_cases [of "data ! 0"] h by linarith
  then show ?thesis
  proof cases
    case v0
    then have v': "uint (data ! 0) div 16 = 0" using v by simp
    show ?thesis using assms h v0 ne unfolding parseEstimoteTelemetryPacket_def Let_def v'
      by (clarsimp simp add: rw simp del: dl)
  next
    case v1
    then have v': "uint (data ! 0) div 16 = 1" using v by simp
    show ?thesis using assms h v1 ne unfolding parseEstimoteTelemetryPacket_def Let_def v'
      by (clarsimp simp add: rw simp del: dl)
  next
    case v2
    then have v': "uint (data ! 0) div 16 = 2" using v by simp
    show ?thesis using assms h v2 ne unfolding parseEstimoteTelemetryPacket_def Let_def v'
      by (clarsimp simp add: rw simp del: dl)
  qed
qed

section \<open>What the parsers return\<close>

text \<open>The 12-bit temperature field of subframe B, assembled from whole bit fields.\<close>

lemma byte_temp_claim:
  "push_bit 10 (take_bit 2 (uint (b17::byte))) OR push_bit 2 (uint (b16::byte))
     OR drop_bit 6 (uint (b15::byte))
   = uint b17 mod 4 * 1024 + uint b16 * 4 + uint b15 div 64"
proof -
  have a: "take_bit 2 (uint b17) = uint b17 AND 3"
    by (simp add: and3 take_bit_eq_mod)
  have b: "drop_bit 6 (uint b15) = drop_bit 6 (uint b15 AND 192)"
    unfolding byte_hi2 by (simp add: drop_bit_eq_div)
  show ?thesis unfolding a b by (rule byte_temp_raw)
qed

lemma byte_temp_range:
  "0 \<le> uint (b17::byte) mod 4 * 1024 + uint (b16::byte) * 4 + uint (b15::byte) div 64"
  "uint b17 mod 4 * 1024 + uint b16 * 4 + uint b15 div 64 < 4096"
proof -
  have "0 \<le> uint b17 mod 4" "uint b17 mod 4 < 4" by simp_all
  moreover have "0 \<le> uint b16" "uint b16 < 256" using uint_byte_lt [of b16] by simp_all
  moreover have "0 \<le> uint b15 div 64" "uint b15 div 64 < 4"
    using uint_byte_lt [of b15] by (simp_all add: div_int_pos_iff)
  ultimately show "0 \<le> uint b17 mod 4 * 1024 + uint b16 * 4 + uint b15 div 64"
    "uint b17 mod 4 * 1024 + uint b16 * 4 + uint b15 div 64 < 4096"
    by linarith+
qed


text \<open>So does a subframe B buffer of 20 bytes.\<close>

lemma telemetryB_returns:
  assumes "20 \<le> length data"
    and "uint (data ! 0) mod 16 = 2" and "uint (data ! 0) div 16 \<le> 2"
    and "uint (data ! 9) mod 4 = 1"
  shows "\<exists>r. parseEstimoteTelemetryPacket data = Inr (Some (SubframeB r))"
proof -
  have ne: "data \<noteq> []" using assms(1) by auto
  have "0 \<le> uint (data ! 0) div 16" by (simp add: div_int_pos_iff)
  then consider (v0) "uint (data ! 0) div 16 = 0" | (v1) "uint (data ! 0) div 16 = 1"
    | (v2) "uint (data ! 0) div 16 = 2"
    using assms(3) by linarith
  then show ?thesis
  proof cases
    case v0
    with assms ne show ?thesis unfolding parseEstimoteTelemetryPacket_def Let_def
      by (simp add: read_defs byte_fields del: drop_bit_and)
  next
    case v1
    with assms ne show ?thesis unfolding parseEstimoteTelemetryPacket_def Let_def
      by (simp add: read_defs byte_fields del: drop_bit_and)
  next
    case v2
    with assms ne show ?thesis unfolding parseEstimoteTelemetryPacket_def Let_def
      by (simp add: read_defs byte_fields del: drop_bit_and)
  qed
qed

text \<open>
  Temperature and battery fields of a returned subframe B record, the temperature with
  its raw value assembled from whole bit fields.
\<close>

lemma telemetryB_temperature:
  assumes "parseEstimoteTelemetryPacket data = Inr (Some (SubframeB r))"
  shows "let raw = push_bit 10 (take_bit 2 (uint (data ! 17))) OR push_bit 2 (uint (data ! 16))
                     OR drop_bit 6 (uint (data ! 15));
             s = (if raw \<le> 2047 then raw else raw - 4096)
         in raw = uint (data ! 17) mod 4 * 1024 + uint (data ! 16) * 4 + uint (data ! 15) div 64
          \<and> 0 \<le> raw \<and> raw \<le> 4095
          \<and> telemetryB.temperature r = of_int s / 16"
proof -
  have t: "telemetryB.temperature r =
           of_int (if uint (data ! 17) mod 4 * 1024 + uint (data ! 16) * 4 + uint (data ! 15) div 64 > 2047
                   then uint (data ! 17) mod 4 * 1024 + uint (data ! 16) * 4 + uint (data ! 15) div 64 - 4096
                   else uint (data ! 17) mod 4 * 1024 + uint (data ! 16) * 4 + uint (data ! 15) div 64) / 16"
    using telemetryB_fields [OF assms] by blast
  show ?thesis
    unfolding Let_def byte_temp_claim t
    using byte_temp_range [of "data ! 17" "data ! 16" "data ! 15"]
    by (simp add: not_less [symmetric])
qed

lemma telemetryB_battery:
  assumes "parseEstimoteTelemetryPacket data = Inr (Some (SubframeB r))"
  shows "(uint (data ! 17) div 4 = 63 \<and> uint (data ! 18) = 255 \<longrightarrow> batteryVoltage r = None)
       \<and> (\<not> (uint (data ! 17) div 4 = 63 \<and> uint (data ! 18) = 255) \<longrightarrow>
            batteryVoltage r = Some (uint (data ! 18) * 64 + uint (data ! 17) div 4))
       \<and> (1 \<le> telemetryB.protocolVersion r \<and> uint (data ! 19) = 255 \<longrightarrow> batteryLevel r = None)
       \<and> (1 \<le> telemetryB.protocolVersion r \<and> uint (data ! 19) \<noteq> 255 \<longrightarrow>
            batteryLevel r = Some (uint (data ! 19)))"
proof -
  note f = telemetryB_fields [OF assms]
  have hi: "uint (data ! 17) div 4 \<le> 63" "uint (data ! 18) \<le> 255"
    using uint_byte_lt [of "data ! 17"] uint_byte_lt [of "data ! 18"] by simp_all
  have ones: "uint (data ! 18) * 64 + uint (data ! 17) div 4 = 16383
               \<longleftrightarrow> uint (data ! 17) div 4 = 63 \<and> uint (data ! 18) = 255"
    using hi by linarith
  have v: "batteryVoltage r =
           (if uint (data ! 17) div 4 = 63 \<and> uint (data ! 18) = 255 then None
            else Some (uint (data ! 18) * 64 + uint (data ! 17) div 4))"
    using f ones by simp
  have l: "batteryLevel r =
           (if telemetryB.protocolVersion r \<ge> 1
            then (if uint (data ! 19) = 255 then None else Some (uint (data ! 19)))
            else None)"
    using f by simp
  show ?thesis unfolding v l by simp
qed

text \<open>A parser that does not throw returns; on 21 bytes or more neither parser throws.\<close>

lemma not_error_returns: "res \<noteq> Inl ERR_OUT_OF_RANGE \<Longrightarrow> \<exists>v. (res :: error + 'a) = Inr v"
  using error_unique by (cases res) auto

lemma telemetry_error_iff:
  "parseEstimoteTelemetryPacket data = Inl ERR_OUT_OF_RANGE \<longleftrightarrow>
        length data < 1 \<or>
        uint (data ! 0) mod 16 = 2 \<and> uint (data ! 0) div 16 \<le> 2 \<and>
          (length data < 10
           \<or> uint (data ! 9) mod 4 = 0 \<and>
               length data < (if uint (data ! 0) div 16 = 2 then 20
                              else if uint (data ! 0) div 16 = 1 then 17 else 16)
           \<or> uint (data ! 9) mod 4 = 1 \<and> length data < 20)"
    using telemetry_error_iff_bits [of data] unfolding byte_fields .

lemma nearable_long_no_error:
  assumes l: "21 \<le> length data"
  shows "parseEstimoteNearablePacket data \<noteq> Inl ERR_OUT_OF_RANGE"
proof -
  have f: "\<not> length data < 2" "\<not> length data < 3" "\<not> length data < 21" using l by auto
  show ?thesis unfolding nearable_error_iff using f by blast
qed

lemma telemetry_long_no_error:
  assumes l: "21 \<le> length data"
  shows "parseEstimoteTelemetryPacket data \<noteq> Inl ERR_OUT_OF_RANGE"
proof -
  have f: "\<not> length data < 1" "\<not> length data < 10" "\<not> length data < 20"
      "\<not> length data < 17" "\<not> length data < 16" using l by auto
  have g: "\<not> length data < (if uint (data ! 0) div 16 = 2 then 20
                              else if uint (data ! 0) div 16 = 1 then 17 else 16)"
    using f by (simp only: if_split [of "\<lambda>k. length data < k"]) blast
  show ?thesis unfolding telemetry_error_iff using f g by blast
qed

lemma long_buffers_return: "21 \<le> length data \<longrightarrow>
      (\<exists>res. parseEstimoteNearablePacket data = Inr res)
      \<and> (\<exists>res. parseEstimoteTelemetryPacket data = Inr res)"
  using nearable_long_no_error [of data] telemetry_long_no_error [of data]
    not_error_returns [of "parseEstimoteNearablePacket data"]
    not_error_returns [of "parseEstimoteTelemetryPacket data"]
  by blast

text \<open>
  \<open>toString('hex', start, end)\<close> gives two digits for each byte of the range when the range
  lies inside the buffer; on 21 bytes or more both identifiers are complete.
\<close>

lemma length_hex: "length (concat (map hexByte bs)) = 2 * length bs"
  by (induction bs) (simp_all add: hexByte_def)

lemma toStringHex_complete:
  "stop \<le> length data \<Longrightarrow> length (toStringHex data start stop) = 2 * (stop - start)"
  by (simp add: toStringHex_def length_hex)

lemma identifiers_complete:
  "21 \<le> length data \<longrightarrow>
     length (toStringHex data 3 11) = 16 \<and> length (toStringHex data 1 9) = 16"
  by (simp add: toStringHex_complete)

text \<open>The example buffers decode to records.\<close>

lemma telemetryA_example_parses:
  "\<exists>r. parseEstimoteTelemetryPacket telemetryA_example = Inr (Some (SubframeA r))"
  by (simp add: telemetryA_example_def parseEstimoteTelemetryPacket_def read_defs Let_def)

lemma telemetryA_v1_example_parses:
  "\<exists>r. parseEstimoteTelemetryPacket telemetryA_v1_example = Inr (Some (SubframeA r))"
  by (simp add: telemetryA_v1_example_def parseEstimoteTelemetryPacket_def read_defs Let_def)

lemma telemetryA_v0_example_parses:
  "\<exists>r. parseEstimoteTelemetryPacket telemetryA_v0_example = Inr (Some (SubframeA r))"
  by (simp add: telemetryA_v0_example_def parseEstimoteTelemetryPacket_def read_defs Let_def)

lemma telemetryB_example_parses:
  "\<exists>r. parseEstimoteTelemetryPacket telemetryB_example = Inr (Some (SubframeB r))"
  by (simp add: telemetryB_example_def parseEstimoteTelemetryPacket_def read_defs Let_def)

lemma telemetryB_unmeasured_parses:
  "\<exists>r. parseEstimoteTelemetryPacket telemetryB_unmeasured = Inr (Some (SubframeB r))"
  by (simp add: telemetryB_unmeasured_def parseEstimoteTelemetryPacket_def read_defs Let_def)

lemma telemetryB_level_parses:
  "\<exists>r. parseEstimoteTelemetryPacket telemetryB_level = Inr (Some (SubframeB r))"
  by (simp add: telemetryB_level_def parseEstimoteTelemetryPacket_def read_defs Let_def)

section \<open>The claims\<close>

text \<open>
  Claim C1. For a Nearable buffer that passes the company-identifier and frame-type
  checks, \<open>isMoving\<close> is meant to be bit 6 of byte 15 (mask \<open>0b01000000\<close>). The
  parser compares the masked value with 1; on the example buffer, whose byte 15 is
  \<open>0b01000000\<close>, it returns a record with \<open>isMoving = false\<close>.
\<close>

theorem C1_nearable_isMoving_false_with_bit6_set:
  "uint (nearable_example ! 15) AND 64 = 64 \<and>
   map_sum id (map_option nearable.isMoving) (parseEstimoteNearablePacket nearable_example)
     = Inr (Some False)"
  by (simp add: nearable_example_def parseEstimoteNearablePacket_def read_defs Let_def)

text \<open>The same holds for every buffer: no record returned by the Nearable parser has
  \<open>isMoving = true\<close>.\<close>

lemma nearable_isMoving_never:
  assumes "parseEstimoteNearablePacket data = Inr (Some r)"
  shows "\<not> nearable.isMoving r"
  using assms nearable_header [OF assms]
  unfolding parseEstimoteNearablePacket_def Let_def
  by (clarsimp simp add: read_defs and64_neq_1)

text \<open>
  Claim C2. The two duration decoders differ at unit code 3: Nearable maps byte
  \<open>0b11011111\<close> to 31 days and \<open>0b11100000\<close> to 0 weeks, Telemetry maps magnitude 32
  to 32 days and magnitude 33 to 1 week. For a byte \<open>w\<close> with unit code
  \<open>w div 64\<close> equal to 0, 1 or 2 both decoders return the 6-bit magnitude
  \<open>w mod 64\<close> unchanged, in seconds, minutes and hours; for unit code 3 Nearable
  returns days below 32 and Telemetry days up to 32, and weeks (magnitude minus 32)
  above.
\<close>

theorem C2_duration_unit_thresholds:
  "parseMotionStateDuration_Nearable 223 = \<lparr>duration.number = 31, unit = ''days''\<rparr>
   \<and> parseMotionStateDuration_Nearable 224 = \<lparr>duration.number = 0, unit = ''weeks''\<rparr>
   \<and> parseMotionStateDuration_Telemetry 224 = \<lparr>duration.number = 32, unit = ''days''\<rparr>
   \<and> parseMotionStateDuration_Telemetry 225 = \<lparr>duration.number = 1, unit = ''weeks''\<rparr>
   \<and> (uint (w::byte) div 64 = 0 \<longrightarrow>
        parseMotionStateDuration_Nearable (uint w)
          = \<lparr>duration.number = uint w mod 64, unit = ''seconds''\<rparr>
      \<and> parseMotionStateDuration_Telemetry (uint w)
          = \<lparr>duration.number = uint w mod 64, unit = ''seconds''\<rparr>)
   \<and> (uint w div 64 = 1 \<longrightarrow>
        parseMotionStateDuration_Nearable (uint w)
          = \<lparr>duration.number = uint w mod 64, unit = ''minutes''\<rparr>
      \<and> parseMotionStateDuration_Telemetry (uint w)
          = \<lparr>duration.number = uint w mod 64, unit = ''minutes''\<rparr>)
   \<and> (uint w div 64 = 2 \<longrightarrow>
        parseMotionStateDuration_Nearable (uint w)
          = \<lparr>duration.number = uint w mod 64, unit = ''hours''\<rparr>
      \<and> parseMotionStateDuration_Telemetry (uint w)
          = \<lparr>duration.number = uint w mod 64, unit = ''hours''\<rparr>)
   \<and> (uint w div 64 = 3 \<longrightarrow>
        parseMotionStateDuration_Nearable (uint w)
          = (if uint w mod 64 < 32 then \<lparr>duration.number = uint w mod 64, unit = ''days''\<rparr>
             else \<lparr>duration.number = uint w mod 64 - 32, unit = ''weeks''\<rparr>)
      \<and> parseMotionStateDuration_Telemetry (uint w)
          = (if uint w mod 64 \<le> 32 then \<lparr>duration.number = uint w mod 64, unit = ''days''\<rparr>
             else \<lparr>duration.number = uint w mod 64 - 32, unit = ''weeks''\<rparr>))"
  by (simp add: parseMotionStateDuration_Nearable_def parseMotionStateDuration_Telemetry_def
      Let_def byte_fields del: drop_bit_and)

theorem C2_duration_unit_thresholds_witness:
  "parseMotionStateDuration_Nearable (uint (5::byte)) = \<lparr>duration.number = 5, unit = ''seconds''\<rparr>
   \<and> parseMotionStateDuration_Telemetry (uint (69::byte)) = \<lparr>duration.number = 5, unit = ''minutes''\<rparr>
   \<and> parseMotionStateDuration_Nearable (uint (133::byte)) = \<lparr>duration.number = 5, unit = ''hours''\<rparr>
   \<and> parseMotionStateDuration_Telemetry (uint (224::byte)) = \<lparr>duration.number = 32, unit = ''days''\<rparr>
   \<and> parseMotionStateDuration_Nearable (uint (224::byte)) = \<lparr>duration.number = 0, unit = ''weeks''\<rparr>"
  using C2_duration_unit_thresholds [of 5] C2_duration_unit_thresholds [of 69]
    C2_duration_unit_thresholds [of 133] C2_duration_unit_thresholds [of 224]
  by simp

text \<open>
  Claim C3, as stated: a Telemetry subframe A buffer of protocol version 2 with the
  bytes \<open>0xFC, 0x98, 0x88, 0x01\<close> at offsets 16 to 19 decodes to a pressure of exactly
  100505 Pa. It does not: the example buffer decodes to \<open>6432319 / 64\<close>, that is
  100504.984375.
\<close>

theorem C3_pressure_example_not_100505:
  "parseEstimoteTelemetryPacket telemetryA_example =
     Inr (Some (SubframeA
       \<lparr>telemetryA.shortIdentifier = ''0102030405060708'',
        telemetryA.frameType = ''Estimote Telemetry'',
        telemetryA.subFrameType = ''A'',
        telemetryA.protocolVersion = 2,
        telemetryA.acceleration =
          \<lparr>x = 2836913151099525 / 18014398509481984,
           y = - (2836913151099525 / 9007199254740992),
           z = 8510739453298575 / 18014398509481984\<rparr>,
        telemetryA.isMoving = False,
        telemetryA.motionStateDuration =
          \<lparr>current = \<lparr>duration.number = 1, unit = ''weeks''\<rparr>,
           previous = \<lparr>duration.number = 32, unit = ''days''\<rparr>\<rparr>,
        pressure = Some (6432319 / 64),
        gpio = \<lparr>pin0 = ''low'', pin1 = ''low'', pin2 = ''low'', pin3 = ''low''\<rparr>,
        telemetryA.errors = Some \<lparr>hasFirmwareError = False, hasClockError = False\<rparr>\<rparr>))
   \<and> (6432319 / 64 :: rat) \<noteq> 100505"
  by (simp add: telemetryA_example_def parseEstimoteTelemetryPacket_def read_defs Let_def hex_defs
      parseMotionStateDuration_Telemetry_def
      roundDouble_20_127 roundDouble_minus_40_127 roundDouble_60_127)

text \<open>
  Claim C3, amended: for every such buffer of at least 20 bytes the parser returns a
  subframe A record whose pressure is the little-endian value \<open>0x018898FC = 25729276\<close>
  divided by 256, which is \<open>100505 - 1/64 = 100504.984375\<close> Pa.
\<close>

theorem C3_pressure_is_raw_over_256:
  assumes "20 \<le> length data"
    and "uint (data ! 0) mod 16 = 2" and "uint (data ! 0) div 16 = 2"
    and "uint (data ! 9) mod 4 = 0"
    and "data ! 16 = 0xFC" and "data ! 17 = 0x98" and "data ! 18 = 0x88" and "data ! 19 = 0x01"
  shows "\<exists>a. parseEstimoteTelemetryPacket data = Inr (Some (SubframeA a))
           \<and> pressure a = Some (25729276 / 256) \<and> pressure a = Some (100505 - 1 / 64)"
  using assms unfolding parseEstimoteTelemetryPacket_def Let_def
  by (auto simp add: read_defs byte_fields simp del: drop_bit_and)

theorem C3_pressure_is_raw_over_256_witness:
  "\<exists>a. parseEstimoteTelemetryPacket telemetryA_example = Inr (Some (SubframeA a))
           \<and> pressure a = Some (25729276 / 256) \<and> pressure a = Some (100505 - 1 / 64)"
  using C3_pressure_is_raw_over_256 [of telemetryA_example] by (simp add: telemetryA_example_def)

text \<open>
  Claim C4. In every Telemetry subframe B record the ambient temperature is \<open>s / 16\<close>,
  where the 12-bit raw value is (low 2 bits of byte 17) shifted left by 10, OR byte 16
  shifted left by 2, OR the top 2 bits of byte 15, and \<open>s\<close> is the raw value when it is at
  most 2047 and the raw value minus 4096 when it lies between 2048 and 4095. The raw
  value is also written as a sum, and its range is stated. Every buffer of at least 20
  bytes with an accepted header (frame type 2, version at most 2) and subframe selector 1
  decodes to such a record.
\<close>

theorem C4_telemetryB_temperature_sign_extended:
  "(parseEstimoteTelemetryPacket data = Inr (Some (SubframeB r)) \<longrightarrow>
      (let raw = push_bit 10 (take_bit 2 (uint (data ! 17))) OR push_bit 2 (uint (data ! 16))
                   OR drop_bit 6 (uint (data ! 15));
           s = (if raw \<le> 2047 then raw else raw - 4096)
       in raw = uint (data ! 17) mod 4 * 1024 + uint (data ! 16) * 4 + uint (data ! 15) div 64
        \<and> 0 \<le> raw \<and> raw \<le> 4095
        \<and> telemetryB.temperature r = of_int s / 16))
   \<and> (20 \<le> length data \<and> uint (data ! 0) mod 16 = 2 \<and> uint (data ! 0) div 16 \<le> 2
        \<and> uint (data ! 9) mod 4 = 1 \<longrightarrow>
      (\<exists>b. parseEstimoteTelemetryPacket data = Inr (Some (SubframeB b))
         \<and> (let raw = push_bit 10 (take_bit 2 (uint (data ! 17))) OR push_bit 2 (uint (data ! 16))
                   OR drop_bit 6 (uint (data ! 15));
           s = (if raw \<le> 2047 then raw else raw - 4096)
       in telemetryB.temperature b = of_int s / 16)))"
proof (intro conjI impI)
  assume "parseEstimoteTelemetryPacket data = Inr (Some (SubframeB r))"
  then show "let raw = push_bit 10 (take_bit 2 (uint (data ! 17))) OR push_bit 2 (uint (data ! 16))
                   OR drop_bit 6 (uint (data ! 15));
           s = (if raw \<le> 2047 then raw else raw - 4096)
       in raw = uint (data ! 17) mod 4 * 1024 + uint (data ! 16) * 4 + uint (data ! 15) div 64
        \<and> 0 \<le> raw \<and> raw \<le> 4095
        \<and> telemetryB.temperature r = of_int s / 16"
    by (rule telemetryB_temperature)
next
  assume "20 \<le> length data \<and> uint (data ! 0) mod 16 = 2 \<and> uint (data ! 0) div 16 \<le> 2
        \<and> uint (data ! 9) mod 4 = 1"
  then have "\<exists>b. parseEstimoteTelemetryPacket data = Inr (Some (SubframeB b))"
    by (intro telemetryB_returns) simp_all
  then obtain b where b: "parseEstimoteTelemetryPacket data = Inr (Some (SubframeB b))" ..
  have "let raw = push_bit 10 (take_bit 2 (uint (data ! 17))) OR push_bit 2 (uint (data ! 16))
                   OR drop_bit 6 (uint (data ! 15));
           s = (if raw \<le> 2047 then raw else raw - 4096)
       in telemetryB.temperature b = of_int s / 16"
    using telemetryB_temperature [OF b] unfolding Let_def by blast
  then show "\<exists>b. parseEstimoteTelemetryPacket data = Inr (Some (SubframeB b))
         \<and> (let raw = push_bit 10 (take_bit 2 (uint (data ! 17))) OR push_bit 2 (uint (data ! 16))
                   OR drop_bit 6 (uint (data ! 15));
           s = (if raw \<le> 2047 then raw else raw - 4096)
       in telemetryB.temperature b = of_int s / 16)"
    using b by blast
qed

theorem C4_telemetryB_temperature_sign_extended_witness:
  "(\<exists>r. parseEstimoteTelemetryPacket telemetryB_example = Inr (Some (SubframeB r))
        \<and> telemetryB.temperature r = 360 / 16)
   \<and> (\<exists>r. parseEstimoteTelemetryPacket telemetryB_unmeasured = Inr (Some (SubframeB r))
        \<and> telemetryB.temperature r = (4016 - 4096) / 16)"
proof -
  obtain r1 where r1: "parseEstimoteTelemetryPacket telemetryB_example = Inr (Some (SubframeB r1))"
    using telemetryB_example_parses by blast
  obtain r2 where r2: "parseEstimoteTelemetryPacket telemetryB_unmeasured = Inr (Some (SubframeB r2))"
    using telemetryB_unmeasured_parses by blast
  have "telemetryB.temperature r1 = 360 / 16"
    using C4_telemetryB_temperature_sign_extended [of telemetryB_example r1] r1
    by (simp add: telemetryB_example_def Let_def)
  moreover have "telemetryB.temperature r2 = (4016 - 4096) / 16"
    using C4_telemetryB_temperature_sign_extended [of telemetryB_unmeasured r2] r2
    by (simp add: telemetryB_unmeasured_def Let_def)
  ultimately show ?thesis using r1 r2 by blast
qed

text \<open>
  Claim C5. The Nearable parser returns absent (no record, no throw) when the 16-bit
  little-endian company identifier at offset 0 is not \<open>0x015d\<close>, or when the byte at
  offset 2 is not \<open>0x01\<close>; the Telemetry parser returns absent when the lower four bits
  of byte 0 are not 2, when the upper four bits of byte 0 exceed 2, or when the lower two
  bits of byte 9 are neither 0 nor 1.
\<close>

theorem C5_discriminator_mismatch_returns_absent:
  "(1 < length data \<and> uint (data ! 0) + uint (data ! 1) * 256 \<noteq> 0x015d
      \<longrightarrow> parseEstimoteNearablePacket data = Inr None)
   \<and> (2 < length data \<and> uint (data ! 2) \<noteq> 0x01
      \<longrightarrow> parseEstimoteNearablePacket data = Inr None)
   \<and> (0 < length data \<and> uint (data ! 0) mod 16 \<noteq> 2
      \<longrightarrow> parseEstimoteTelemetryPacket data = Inr None)
   \<and> (0 < length data \<and> uint (data ! 0) div 16 > 2
      \<longrightarrow> parseEstimoteTelemetryPacket data = Inr None)
   \<and> (9 < length data \<and> uint (data ! 9) mod 4 \<noteq> 0 \<and> uint (data ! 9) mod 4 \<noteq> 1
      \<longrightarrow> parseEstimoteTelemetryPacket data = Inr None)"
  unfolding parseEstimoteNearablePacket_def parseEstimoteTelemetryPacket_def Let_def
  by (simp add: read_defs byte_fields del: drop_bit_and)

theorem C5_discriminator_mismatch_returns_absent_witness:
  "parseEstimoteNearablePacket (nearable_example [0 := 0x4C]) = Inr None
   \<and> parseEstimoteNearablePacket (nearable_example [2 := 0x02]) = Inr None
   \<and> parseEstimoteTelemetryPacket nearable_example = Inr None
   \<and> parseEstimoteTelemetryPacket (telemetryA_example [0 := 0x32]) = Inr None
   \<and> parseEstimoteTelemetryPacket (telemetryA_example [9 := 0x02]) = Inr None"
  using C5_discriminator_mismatch_returns_absent [of "nearable_example [0 := 0x4C]"]
    C5_discriminator_mismatch_returns_absent [of "nearable_example [2 := 0x02]"]
    C5_discriminator_mismatch_returns_absent [of nearable_example]
    C5_discriminator_mismatch_returns_absent [of "telemetryA_example [0 := 0x32]"]
    C5_discriminator_mismatch_returns_absent [of "telemetryA_example [9 := 0x02]"]
  by (simp add: nearable_example_def telemetryA_example_def)

text \<open>
  Claim C6. A record returned by the Telemetry parser has \<open>errors\<close> exactly when it
  is a subframe A record of protocol version 1 or 2 (version 2: bits 2 and 3 of byte 15;
  version 1: bits 0 and 1 of byte 16) or a subframe B record of protocol version 0 (bits
  0 and 1 of byte 19); a subframe A record has \<open>pressure\<close> exactly when the protocol
  version is 2; a subframe B record has \<open>batteryLevel\<close> only when the protocol version
  is at least 1. In every other case the field is \<open>undefined\<close> (\<open>None\<close>), not a zero.
  Subframe A records have no \<open>batteryLevel\<close> field and subframe B records no
  \<open>pressure\<close> field at all. The protocol version is the upper half of byte 0.
\<close>

theorem C6_optional_fields_by_version:
  "(parseEstimoteTelemetryPacket data = Inr (Some (SubframeA a)) \<longrightarrow>
      telemetryA.protocolVersion a = uint (data ! 0) div 16
      \<and> (telemetryA.errors a \<noteq> None \<longleftrightarrow> uint (data ! 0) div 16 = 1 \<or> uint (data ! 0) div 16 = 2)
      \<and> (uint (data ! 0) div 16 = 2 \<longrightarrow>
            telemetryA.errors a =
              Some \<lparr>hasFirmwareError = bit (data ! 15) 2, hasClockError = bit (data ! 15) 3\<rparr>)
      \<and> (uint (data ! 0) div 16 = 1 \<longrightarrow>
            telemetryA.errors a =
              Some \<lparr>hasFirmwareError = bit (data ! 16) 0, hasClockError = bit (data ! 16) 1\<rparr>)
      \<and> (pressure a \<noteq> None \<longleftrightarrow> uint (data ! 0) div 16 = 2))
   \<and> (parseEstimoteTelemetryPacket data = Inr (Some (SubframeB b)) \<longrightarrow>
      telemetryB.protocolVersion b = uint (data ! 0) div 16
      \<and> (telemetryB.errors b \<noteq> None \<longleftrightarrow> uint (data ! 0) div 16 = 0)
      \<and> (uint (data ! 0) div 16 = 0 \<longrightarrow>
            telemetryB.errors b =
              Some \<lparr>hasFirmwareError = bit (data ! 19) 0, hasClockError = bit (data ! 19) 1\<rparr>)
      \<and> (batteryLevel b \<noteq> None \<longrightarrow> 1 \<le> uint (data ! 0) div 16))"
proof (intro conjI impI)
  assume p: "parseEstimoteTelemetryPacket data = Inr (Some (SubframeA a))"
  note f = telemetryA_fields [OF p]
  show "telemetryA.protocolVersion a = uint (data ! 0) div 16" using f by blast
  show "(telemetryA.errors a \<noteq> None) = (uint (data ! 0) div 16 = 1 \<or> uint (data ! 0) div 16 = 2)"
    using f by (simp split: if_splits)
  have "\<exists>q. pressure a = (if uint (data ! 0) div 16 = 2 then Some q else None)"
    using f by blast
  then show "pressure a \<noteq> None \<longleftrightarrow> uint (data ! 0) div 16 = 2"
    by (auto split: if_splits)
  {
    assume "uint (data ! 0) div 16 = 2"
    then show "telemetryA.errors a =
              Some \<lparr>hasFirmwareError = bit (data ! 15) 2, hasClockError = bit (data ! 15) 3\<rparr>"
      using f by simp
  }
  {
    assume "uint (data ! 0) div 16 = 1"
    then show "telemetryA.errors a =
              Some \<lparr>hasFirmwareError = bit (data ! 16) 0, hasClockError = bit (data ! 16) 1\<rparr>"
      using f by simp
  }
next
  assume p: "parseEstimoteTelemetryPacket data = Inr (Some (SubframeB b))"
  note f = telemetryB_fields [OF p]
  show "telemetryB.protocolVersion b = uint (data ! 0) div 16" using f by blast
  show "(telemetryB.errors b \<noteq> None) = (uint (data ! 0) div 16 = 0)"
    using f by (simp split: if_splits)
  {
    assume "uint (data ! 0) div 16 = 0"
    then show "telemetryB.errors b =
              Some \<lparr>hasFirmwareError = bit (data ! 19) 0, hasClockError = bit (data ! 19) 1\<rparr>"
      using f by simp
  }
  {
    assume "batteryLevel b \<noteq> None"
    then show "1 \<le> uint (data ! 0) div 16"
      using f by (simp split: if_splits)
  }
qed

theorem C6_optional_fields_by_version_witness:
  "(\<exists>a. parseEstimoteTelemetryPacket telemetryA_example = Inr (Some (SubframeA a))
        \<and> telemetryA.protocolVersion a = 2
        \<and> telemetryA.errors a = Some \<lparr>hasFirmwareError = False, hasClockError = False\<rparr>
        \<and> pressure a \<noteq> None)
   \<and> (\<exists>a. parseEstimoteTelemetryPacket telemetryA_v1_example = Inr (Some (SubframeA a))
        \<and> telemetryA.protocolVersion a = 1
        \<and> telemetryA.errors a = Some \<lparr>hasFirmwareError = False, hasClockError = True\<rparr>
        \<and> pressure a = None)
   \<and> (\<exists>a. parseEstimoteTelemetryPacket telemetryA_v0_example = Inr (Some (SubframeA a))
        \<and> telemetryA.protocolVersion a = 0
        \<and> telemetryA.errors a = None \<and> pressure a = None)
   \<and> (\<exists>b. parseEstimoteTelemetryPacket telemetryB_example = Inr (Some (SubframeB b))
        \<and> telemetryB.protocolVersion b = 0
        \<and> telemetryB.errors b = Some \<lparr>hasFirmwareError = True, hasClockError = True\<rparr>
        \<and> batteryLevel b = None)
   \<and> (\<exists>b. parseEstimoteTelemetryPacket telemetryB_level = Inr (Some (SubframeB b))
        \<and> telemetryB.protocolVersion b = 2
        \<and> telemetryB.errors b = None)"
proof -
  obtain a2 where a2: "parseEstimoteTelemetryPacket telemetryA_example = Inr (Some (SubframeA a2))"
    using telemetryA_example_parses by blast
  obtain a1 where a1: "parseEstimoteTelemetryPacket telemetryA_v1_example = Inr (Some (SubframeA a1))"
    using telemetryA_v1_example_parses by blast
  obtain a0 where a0: "parseEstimoteTelemetryPacket telemetryA_v0_example = Inr (Some (SubframeA a0))"
    using telemetryA_v0_example_parses by blast
  obtain b0 where b0: "parseEstimoteTelemetryPacket telemetryB_example = Inr (Some (SubframeB b0))"
    using telemetryB_example_parses by blast
  obtain b2 where b2: "parseEstimoteTelemetryPacket telemetryB_level = Inr (Some (SubframeB b2))"
    using telemetryB_level_parses by blast
  have "telemetryA.protocolVersion a2 = 2
        \<and> telemetryA.errors a2 = Some \<lparr>hasFirmwareError = False, hasClockError = False\<rparr>
        \<and> pressure a2 \<noteq> None"
    using C6_optional_fields_by_version [of telemetryA_example a2] a2
    by (simp add: telemetryA_example_def)
  moreover have "telemetryA.protocolVersion a1 = 1
        \<and> telemetryA.errors a1 = Some \<lparr>hasFirmwareError = False, hasClockError = True\<rparr>
        \<and> pressure a1 = None"
    using C6_optional_fields_by_version [of telemetryA_v1_example a1] a1
    by (simp add: telemetryA_v1_example_def)
  moreover have "telemetryA.protocolVersion a0 = 0
        \<and> telemetryA.errors a0 = None \<and> pressure a0 = None"
    using C6_optional_fields_by_version [of telemetryA_v0_example a0] a0
    by (simp add: telemetryA_v0_example_def)
  moreover have "telemetryB.protocolVersion b0 = 0
        \<and> telemetryB.errors b0 = Some \<lparr>hasFirmwareError = True, hasClockError = True\<rparr>
        \<and> batteryLevel b0 = None"
    using C6_optional_fields_by_version [of telemetryB_example _ b0] b0
    by (simp add: telemetryB_example_def)
  moreover have "telemetryB.protocolVersion b2 = 2 \<and> telemetryB.errors b2 = None"
    using C6_optional_fields_by_version [of telemetryB_level _ b2] b2
    by (simp add: telemetryB_level_def)
  ultimately show ?thesis using a2 a1 a0 b0 b2 by blast
qed

text \<open>
  Claim C7. On a buffer of at least 21 bytes no read of either parser is out of range:
  both parsers return (a record or absent), and the two identifier ranges lie inside the
  buffer. The Nearable parser throws the out-of-range
  error exactly when the buffer ends before a byte it goes on to read: before the company
  identifier, or, the company identifier matching, before the frame type, or, both
  matching, before byte 20. The Telemetry parser throws exactly when the buffer is empty,
  or, frame type and version being accepted, ends before byte 9, or before the last byte
  of the selected layout (byte 15, 16 or 19 of subframe A for versions 0, 1, 2; byte 19 of
  subframe B). The thrown error is a result distinct from absent.
\<close>

theorem C7_out_of_range_only_when_truncated:
  "(21 \<le> length data \<longrightarrow>
      (\<exists>res. parseEstimoteNearablePacket data = Inr res)
      \<and> (\<exists>res. parseEstimoteTelemetryPacket data = Inr res)
      \<and> length (toStringHex data 3 11) = 16 \<and> length (toStringHex data 1 9) = 16)
   \<and> (parseEstimoteNearablePacket data = Inl ERR_OUT_OF_RANGE \<longleftrightarrow>
        length data < 2 \<or>
        uint (data ! 0) + uint (data ! 1) * 256 = 0x015d \<and>
          (length data < 3 \<or> uint (data ! 2) = 0x01 \<and> length data < 21))
   \<and> (parseEstimoteTelemetryPacket data = Inl ERR_OUT_OF_RANGE \<longleftrightarrow>
        length data < 1 \<or>
        uint (data ! 0) mod 16 = 2 \<and> uint (data ! 0) div 16 \<le> 2 \<and>
          (length data < 10
           \<or> uint (data ! 9) mod 4 = 0 \<and>
               length data < (if uint (data ! 0) div 16 = 2 then 20
                              else if uint (data ! 0) div 16 = 1 then 17 else 16)
           \<or> uint (data ! 9) mod 4 = 1 \<and> length data < 20))
   \<and> (Inl ERR_OUT_OF_RANGE :: error + nearable option) \<noteq> Inr None
   \<and> (Inl ERR_OUT_OF_RANGE :: error + telemetry option) \<noteq> Inr None"
proof -
  have d: "(Inl ERR_OUT_OF_RANGE :: error + nearable option) \<noteq> Inr None" by simp
  have e: "(Inl ERR_OUT_OF_RANGE :: error + telemetry option) \<noteq> Inr None" by simp
  show ?thesis
    using long_buffers_return [of data] identifiers_complete [of data]
      nearable_error_iff [of data] telemetry_error_iff [of data] d e
    by blast
qed

theorem C7_out_of_range_only_when_truncated_witness:
  "(\<exists>res. parseEstimoteNearablePacket nearable_example = Inr res)
   \<and> (\<exists>res. parseEstimoteTelemetryPacket nearable_example = Inr res)
   \<and> parseEstimoteNearablePacket (take 20 nearable_example) = Inl ERR_OUT_OF_RANGE
   \<and> parseEstimoteTelemetryPacket (take 19 telemetryB_example) = Inl ERR_OUT_OF_RANGE
   \<and> parseEstimoteTelemetryPacket (take 19 telemetryA_example) = Inl ERR_OUT_OF_RANGE
   \<and> parseEstimoteTelemetryPacket (take 16 telemetryA_v1_example) = Inl ERR_OUT_OF_RANGE
   \<and> parseEstimoteTelemetryPacket telemetryA_v0_example \<noteq> Inl ERR_OUT_OF_RANGE"
proof -
  have a: "(\<exists>res. parseEstimoteNearablePacket nearable_example = Inr res)
   \<and> (\<exists>res. parseEstimoteTelemetryPacket nearable_example = Inr res)"
    using C7_out_of_range_only_when_truncated [of nearable_example]
    by (simp add: nearable_example_def)
  have b: "parseEstimoteNearablePacket (take 20 nearable_example) = Inl ERR_OUT_OF_RANGE"
    using C7_out_of_range_only_when_truncated [of "take 20 nearable_example"]
    by (simp add: nearable_example_def)
  have c: "parseEstimoteTelemetryPacket (take 19 telemetryB_example) = Inl ERR_OUT_OF_RANGE"
    using C7_out_of_range_only_when_truncated [of "take 19 telemetryB_example"]
    by (simp add: telemetryB_example_def)
  have d: "parseEstimoteTelemetryPacket (take 19 telemetryA_example) = Inl ERR_OUT_OF_RANGE"
    using C7_out_of_range_only_when_truncated [of "take 19 telemetryA_example"]
    by (simp add: telemetryA_example_def)
  have e: "parseEstimoteTelemetryPacket (take 16 telemetryA_v1_example) = Inl ERR_OUT_OF_RANGE"
    using C7_out_of_range_only_when_truncated [of "take 16 telemetryA_v1_example"]
    by (simp add: telemetryA_v1_example_def)
  have f: "parseEstimoteTelemetryPacket telemetryA_v0_example \<noteq> Inl ERR_OUT_OF_RANGE"
    using C7_out_of_range_only_when_truncated [of telemetryA_v0_example]
    by (simp add: telemetryA_v0_example_def)
  show ?thesis using a b c d e f by blast
qed

text \<open>
  Claim C8. In every Telemetry subframe B record, \<open>batteryVoltage\<close> is absent when
  all fourteen bits of its field are set (the top six bits of byte 17 and all of byte 18)
  and is otherwise the value read, byte 18 as the high bits above the top six bits of byte
  17; for protocol version 1 or later \<open>batteryLevel\<close> is absent when byte 19 is 255
  and is otherwise byte 19. Every buffer of at least 20 bytes with an accepted header
  (frame type 2, version at most 2) and subframe selector 1 decodes to a record with
  these fields.
\<close>

theorem C8_unmeasured_battery_is_absent:
  "(parseEstimoteTelemetryPacket data = Inr (Some (SubframeB r)) \<longrightarrow>
      (uint (data ! 17) div 4 = 63 \<and> uint (data ! 18) = 255 \<longrightarrow> batteryVoltage r = None)
      \<and> (\<not> (uint (data ! 17) div 4 = 63 \<and> uint (data ! 18) = 255) \<longrightarrow>
            batteryVoltage r = Some (uint (data ! 18) * 64 + uint (data ! 17) div 4))
      \<and> (1 \<le> telemetryB.protocolVersion r \<and> uint (data ! 19) = 255 \<longrightarrow> batteryLevel r = None)
      \<and> (1 \<le> telemetryB.protocolVersion r \<and> uint (data ! 19) \<noteq> 255 \<longrightarrow>
            batteryLevel r = Some (uint (data ! 19))))
   \<and> (20 \<le> length data \<and> uint (data ! 0) mod 16 = 2 \<and> uint (data ! 0) div 16 \<le> 2
        \<and> uint (data ! 9) mod 4 = 1 \<longrightarrow>
      (\<exists>b. parseEstimoteTelemetryPacket data = Inr (Some (SubframeB b))
         \<and> telemetryB.protocolVersion b = uint (data ! 0) div 16
         \<and> batteryVoltage b =
              (if uint (data ! 17) div 4 = 63 \<and> uint (data ! 18) = 255 then None
               else Some (uint (data ! 18) * 64 + uint (data ! 17) div 4))
         \<and> (1 \<le> uint (data ! 0) div 16 \<longrightarrow>
              batteryLevel b = (if uint (data ! 19) = 255 then None else Some (uint (data ! 19))))))"
proof (intro conjI)
  show "parseEstimoteTelemetryPacket data = Inr (Some (SubframeB r)) \<longrightarrow>
      (uint (data ! 17) div 4 = 63 \<and> uint (data ! 18) = 255 \<longrightarrow> batteryVoltage r = None)
      \<and> (\<not> (uint (data ! 17) div 4 = 63 \<and> uint (data ! 18) = 255) \<longrightarrow>
            batteryVoltage r = Some (uint (data ! 18) * 64 + uint (data ! 17) div 4))
      \<and> (1 \<le> telemetryB.protocolVersion r \<and> uint (data ! 19) = 255 \<longrightarrow> batteryLevel r = None)
      \<and> (1 \<le> telemetryB.protocolVersion r \<and> uint (data ! 19) \<noteq> 255 \<longrightarrow>
            batteryLevel r = Some (uint (data ! 19)))"
    using telemetryB_battery [of data r] by blast
next
  show "20 \<le> length data \<and> uint (data ! 0) mod 16 = 2 \<and> uint (data ! 0) div 16 \<le> 2
        \<and> uint (data ! 9) mod 4 = 1 \<longrightarrow>
      (\<exists>b. parseEstimoteTelemetryPacket data = Inr (Some (SubframeB b))
         \<and> telemetryB.protocolVersion b = uint (data ! 0) div 16
         \<and> batteryVoltage b =
              (if uint (data ! 17) div 4 = 63 \<and> uint (data ! 18) = 255 then None
               else Some (uint (data ! 18) * 64 + uint (data ! 17) div 4))
         \<and> (1 \<le> uint (data ! 0) div 16 \<longrightarrow>
              batteryLevel b = (if uint (data ! 19) = 255 then None else Some (uint (data ! 19)))))"
  proof
    assume "20 \<le> length data \<and> uint (data ! 0) mod 16 = 2 \<and> uint (data ! 0) div 16 \<le> 2
        \<and> uint (data ! 9) mod 4 = 1"
    then have "\<exists>b. parseEstimoteTelemetryPacket data = Inr (Some (SubframeB b))"
      by (intro telemetryB_returns) simp_all
    then obtain b where b: "parseEstimoteTelemetryPacket data = Inr (Some (SubframeB b))" ..
    have v: "telemetryB.protocolVersion b = uint (data ! 0) div 16"
      using telemetryB_fields [OF b] by blast
    have volt: "batteryVoltage b =
              (if uint (data ! 17) div 4 = 63 \<and> uint (data ! 18) = 255 then None
               else Some (uint (data ! 18) * 64 + uint (data ! 17) div 4))"
      using telemetryB_battery [OF b] by (simp split: if_splits)
    have level: "1 \<le> uint (data ! 0) div 16 \<longrightarrow>
              batteryLevel b = (if uint (data ! 19) = 255 then None else Some (uint (data ! 19)))"
      using telemetryB_battery [OF b] unfolding v by (simp split: if_splits)
    show "\<exists>b. parseEstimoteTelemetryPacket data = Inr (Some (SubframeB b))
         \<and> telemetryB.protocolVersion b = uint (data ! 0) div 16
         \<and> batteryVoltage b =
              (if uint (data ! 17) div 4 = 63 \<and> uint (data ! 18) = 255 then None
               else Some (uint (data ! 18) * 64 + uint (data ! 17) div 4))
         \<and> (1 \<le> uint (data ! 0) div 16 \<longrightarrow>
              batteryLevel b = (if uint (data ! 19) = 255 then None else Some (uint (data ! 19))))"
      using b v volt level by blast
  qed
qed

theorem C8_unmeasured_battery_is_absent_witness:
  "(\<exists>r. parseEstimoteTelemetryPacket telemetryB_unmeasured = Inr (Some (SubframeB r))
        \<and> batteryVoltage r = None \<and> batteryLevel r = None)
   \<and> (\<exists>r. parseEstimoteTelemetryPacket telemetryB_level = Inr (Some (SubframeB r))
        \<and> batteryVoltage r = Some 3000 \<and> batteryLevel r = Some 87)"
proof -
  obtain r1 where r1: "parseEstimoteTelemetryPacket telemetryB_unmeasured = Inr (Some (SubframeB r1))"
    using telemetryB_unmeasured_parses by blast
  obtain r2 where r2: "parseEstimoteTelemetryPacket telemetryB_level = Inr (Some (SubframeB r2))"
    using telemetryB_level_parses by blast
  have v1: "telemetryB.protocolVersion r1 = 1"
    using telemetryB_fields [OF r1] by (simp add: telemetryB_unmeasured_def)
  have v2: "telemetryB.protocolVersion r2 = 2"
    using telemetryB_fields [OF r2] by (simp add: telemetryB_level_def)
  have "batteryVoltage r1 = None \<and> batteryLevel r1 = None"
    using C8_unmeasured_battery_is_absent [of telemetryB_unmeasured r1] r1 v1
    by (simp add: telemetryB_unmeasured_def)
  moreover have "batteryVoltage r2 = Some 3000 \<and> batteryLevel r2 = Some 87"
    using C8_unmeasured_battery_is_absent [of telemetryB_level r2] r2 v2
    by (simp add: telemetryB_level_def)
  ultimately show ?thesis using r1 r2 by blast
qed

text \<open>
  Claim C9, as stated: a Nearable buffer that passes the discriminator checks and has
  the bytes \<open>0x00, 0x10\<close> at offsets 13 and 14 decodes to a temperature of 16.0. It does
  not: the parser keeps the low 12 bits of the word \<open>0x1000\<close>, which are 0, and the
  example buffer decodes to the temperature 0.
\<close>

theorem C9_temperature_example_not_16:
  "uint (nearable_example ! 13) = 0x00 \<and> uint (nearable_example ! 14) = 0x10 \<and>
   map_sum id (map_option nearable.temperature) (parseEstimoteNearablePacket nearable_example)
     = Inr (Some 0) \<and> (0::rat) \<noteq> 16"
  by (simp add: nearable_example_def parseEstimoteNearablePacket_def read_defs Let_def)

text \<open>
  Claim C9, amended: every such buffer of at least 21 bytes decodes to a record whose
  temperature is 0.
\<close>

theorem C9_temperature_word_0x1000_is_zero:
  assumes "21 \<le> length data"
    and "uint (data ! 0) + uint (data ! 1) * 256 = 0x015d"
    and "uint (data ! 2) = 0x01"
    and "data ! 13 = 0x00" and "data ! 14 = 0x10"
  shows "\<exists>r. parseEstimoteNearablePacket data = Inr (Some r) \<and> nearable.temperature r = 0"
  using assms unfolding parseEstimoteNearablePacket_def Let_def
  by (simp add: read_defs)

theorem C9_temperature_word_0x1000_is_zero_witness:
  "\<exists>r. parseEstimoteNearablePacket nearable_example = Inr (Some r) \<and> nearable.temperature r = 0"
  using C9_temperature_word_0x1000_is_zero [of nearable_example] by (simp add: nearable_example_def)



end
